theory Spec2Isabelle
  imports Main
begin

section \<open>Data model\<close>

text \<open>
  The records follow the TypeScript interfaces of the sources. The field \<open>id\<close> of the
  interfaces is written \<open>nid\<close>, \<open>tid\<close> and \<open>uid\<close> (the name \<open>id\<close> is HOL's identity
  function), and \<open>type\<close> is written \<open>ntype\<close>. A field of type \<open>string | null\<close> or an optional
  field is a \<open>string option\<close>.
\<close>

text \<open>\<open>interface Notification\<close> of notifications-popover.tsx.\<close>

record notification =
  nid :: string
  message :: string
  read :: bool
  created_at :: string
  ntype :: string
  task_id :: "string option"

text \<open>\<open>type User\<close> of auth-context.tsx; the value \<open>null\<close> of that type is \<open>None\<close> of \<open>user option\<close>.\<close>

record user =
  uid :: string
  email :: string
  name :: "string option"
  role :: "string option"

text \<open>\<open>interface Task\<close> of the task page, the task list and the dashboard page.\<close>

record task =
  tid :: string
  title :: string
  description :: "string option"
  status :: string
  priority :: string
  due_date :: "string option"
  t_created_at :: string
  updated_at :: "string option"
  created_by :: string
  assigned_to :: "string option"
  creator_name :: "string option"
  assignee_name :: "string option"

section \<open>The Data Service client and the effects of a handler\<close>

text \<open>
  A call chain on the client (\<open>supabase.from(t).select(..).eq(..).order(..).limit(..)\<close>,
  \<open>.update(..).eq(..)\<close>, \<open>.insert([..])\<close>, \<open>.delete().eq(..)\<close>) is a value of \<open>request\<close>. The
  answer \<open>{ data, error }\<close> of the service is an input of the handler that awaits it; an
  error is represented by its \<open>message\<close>.
\<close>

datatype jsval = Str string | Bool bool | Null

type_synonym row = "(string \<times> jsval) list"

datatype direction = Ascending | Descending

datatype request =
    Select string string row "(string \<times> direction) option" "nat option"
  | Update string row row
  | Insert string "row list"
  | Delete string row

type_synonym service_error = string

record 'a response =
  data :: "'a option"
  error :: "service_error option"

datatype variant = Default | Destructive

datatype effect =
    Request request
  | ConsoleError string service_error
  | Toast string string variant
  | OnTaskUpdate
  | RouterRefresh
  | RouterPush string

text \<open>
  An \<open>async\<close> handler returns a promise. The promise of every handler below is resolved:
  each body is a \<open>try\<close> whose \<open>catch\<close> takes every error thrown in it.
\<close>

datatype failure = NotAuthenticated | DataServiceError service_error

datatype outcome = Resolved | Rejected failure

section \<open>NotificationsPopover\<close>

text \<open>
  The state of the component: the two \<open>useState\<close> cells the handlers write, and the
  sequence of requests and console messages they have issued.
\<close>

record popover =
  notifications :: "notification list"
  unreadCount :: int
  trace :: "effect list"

definition popover_init :: popover where
  "popover_init = \<lparr>notifications = [], unreadCount = 0, trace = []\<rparr>"

definition notifications_query :: "user \<Rightarrow> request" where
  "notifications_query u =
     Select ''notifications'' ''*'' [(''user_id'', Str (uid u))]
       (Some (''created_at'', Descending)) (Some 20)"

definition unread :: "notification list \<Rightarrow> notification list" where
  "unread ns = filter (\<lambda>n. \<not> read n) ns"

definition fetchNotifications ::
  "user option \<Rightarrow> notification list response \<Rightarrow> popover \<Rightarrow> outcome \<times> popover" where
  "fetchNotifications usr resp s =
     (case usr of
        None \<Rightarrow> (Resolved, s)
      | Some u \<Rightarrow>
          let s1 = s\<lparr>trace := trace s @ [Request (notifications_query u)]\<rparr> in
          (case error resp of
             Some e \<Rightarrow>
               (Resolved, s1\<lparr>trace := trace s1 @ [ConsoleError ''Error fetching notifications:'' e]\<rparr>)
           | None \<Rightarrow>
               (case data resp of
                  Some d \<Rightarrow>
                    (Resolved, s1\<lparr>notifications := d, unreadCount := int (length (unread d))\<rparr>)
                | None \<Rightarrow> (Resolved, s1))))"

text \<open>The callback of the \<open>INSERT\<close> subscription, applied to \<open>payload.new\<close>.\<close>

definition subscription_insert :: "notification \<Rightarrow> popover \<Rightarrow> popover" where
  "subscription_insert payload_new s =
     s\<lparr>notifications := payload_new # notifications s, unreadCount := unreadCount s + 1\<rparr>"

definition markAsRead :: "string \<Rightarrow> service_error option \<Rightarrow> popover \<Rightarrow> outcome \<times> popover" where
  "markAsRead notificationId err s =
     (let s1 = s\<lparr>trace := trace s @
                 [Request (Update ''notifications'' [(''read'', Bool True)]
                             [(''id'', Str notificationId)])]\<rparr> in
      case err of
        Some e \<Rightarrow>
          (Resolved, s1\<lparr>trace := trace s1 @ [ConsoleError ''Error marking notification as read:'' e]\<rparr>)
      | None \<Rightarrow>
          (Resolved,
           s1\<lparr>notifications :=
                 map (\<lambda>n. if nid n = notificationId then n\<lparr>read := True\<rparr> else n) (notifications s1),
               unreadCount := max 0 (unreadCount s1 - 1)\<rparr>))"

definition markAllAsRead :: "user option \<Rightarrow> service_error option \<Rightarrow> popover \<Rightarrow> outcome \<times> popover" where
  "markAllAsRead usr err s =
     (case usr of
        None \<Rightarrow> (Resolved, s)
      | Some u \<Rightarrow>
          let s1 = s\<lparr>trace := trace s @
                     [Request (Update ''notifications'' [(''read'', Bool True)]
                                 [(''user_id'', Str (uid u)), (''read'', Bool False)])]\<rparr> in
          (case err of
             Some e \<Rightarrow>
               (Resolved,
                s1\<lparr>trace := trace s1 @ [ConsoleError ''Error marking all notifications as read:'' e]\<rparr>)
           | None \<Rightarrow>
               (Resolved,
                s1\<lparr>notifications := map (\<lambda>n. n\<lparr>read := True\<rparr>) (notifications s1),
                    unreadCount := 0\<rparr>)))"

text \<open>
  The click handler of a rendered entry. \<open>rendered\<close> is the record the entry was rendered
  from (the value its \<open>onClick\<close> closes over), which is the record of the collection at the
  time of the render, not at the time the awaited update is answered. The state is paired
  with the \<open>isOpen\<close> cell of the popover.
\<close>

definition handleNotificationClick ::
  "notification \<Rightarrow> service_error option \<Rightarrow> popover \<times> bool \<Rightarrow> outcome \<times> popover \<times> bool" where
  "handleNotificationClick rendered err v =
     (let s1 = (if \<not> read rendered then snd (markAsRead (nid rendered) err (fst v)) else fst v) in
      case task_id rendered of
        Some t \<Rightarrow>
          if t \<noteq> [] then
            (Resolved, s1\<lparr>trace := trace s1 @ [RouterPush (''/dashboard/tasks/'' @ t)]\<rparr>, False)
          else (Resolved, s1, snd v)
      | None \<Rightarrow> (Resolved, s1, snd v))"

text \<open>The collection and count after a click on an entry of the open popover.\<close>

definition clicked :: "notification \<Rightarrow> service_error option \<Rightarrow> popover \<Rightarrow> popover" where
  "clicked rendered err s = fst (snd (handleNotificationClick rendered err (s, True)))"

text \<open>The count agrees with the collection: it is the number of unread records.\<close>

definition count_consistent :: "popover \<Rightarrow> bool" where
  "count_consistent s = (unreadCount s = int (length (unread (notifications s))))"

text \<open>
  Two collections of the same length are related by \<open>flags_kept\<close> when each position holds
  the same identifier and a read flag that is true after if it was true before.
\<close>

definition flags_kept :: "notification list \<Rightarrow> notification list \<Rightarrow> bool" where
  "flags_kept before after =
     list_all2 (\<lambda>a b. nid a = nid b \<and> (read a \<longrightarrow> read b)) before after"

text \<open>Sample values.\<close>

definition notif :: "string \<Rightarrow> bool \<Rightarrow> notification" where
  "notif i r = \<lparr>nid = i, message = ''m'', read = r, created_at = ''2024-01-01T00:00:00Z'',
               ntype = ''task_assigned'', task_id = None\<rparr>"

definition alice :: user where
  "alice = \<lparr>uid = ''u1'', email = ''alice@example.org'', name = Some ''Alice'', role = Some ''user''\<rparr>"

definition bob :: user where
  "bob = \<lparr>uid = ''u2'', email = ''bob@example.org'', name = Some ''Bob'', role = Some ''user''\<rparr>"

definition fetched :: "notification list \<Rightarrow> notification list response" where
  "fetched d = \<lparr>data = Some d, error = None\<rparr>"

definition refused :: "service_error \<Rightarrow> notification list response" where
  "refused e = \<lparr>data = None, error = Some e\<rparr>"

section \<open>TaskList and TaskPage\<close>

text \<open>
  The row of the notification that both \<open>updateTaskStatus\<close> handlers insert: \<open>user.name ||
  'Someone'\<close> takes the name unless it is undefined or empty; the task title stands between
  double quotes.
\<close>

definition name_or_someone :: "user \<Rightarrow> string" where
  "name_or_someone u = (case name u of Some n \<Rightarrow> (if n = [] then ''Someone'' else n) | None \<Rightarrow> ''Someone'')"

definition completion_row :: "user \<Rightarrow> task \<Rightarrow> string \<Rightarrow> string \<Rightarrow> row" where
  "completion_row u t taskId now =
     [(''user_id'', Str (created_by t)),
      (''message'', Str (name_or_someone u @ '' completed the task '' @ [CHR 0x22] @ title t @ [CHR 0x22])),
      (''type'', Str ''task_completed''),
      (''read'', Bool False),
      (''task_id'', Str taskId),
      (''created_at'', Str now)]"

definition status_update_request :: "string \<Rightarrow> string \<Rightarrow> string \<Rightarrow> request" where
  "status_update_request taskId new_status now =
     Update ''tasks'' [(''status'', Str new_status), (''updated_at'', Str now)] [(''id'', Str taskId)]"

definition status_words :: "string \<Rightarrow> string" where
  "status_words st =
     ''Task status updated to '' @
     (if st = ''completed'' then ''completed'' else if st = ''in_progress'' then ''in progress'' else ''to do'')"

definition message_or :: "service_error \<Rightarrow> string" where
  "message_or e = (if e = [] then ''An error occurred'' else e)"

text \<open>
  TaskList: \<open>tasks\<close> and \<open>onTaskUpdate\<close> are props (\<open>onTaskUpdate\<close> records whether the
  callback was passed); the other fields are the component's \<open>useState\<close> cells and the
  effects it has issued. No handler of the component has a setter for \<open>tasks\<close>.
\<close>

record task_list =
  tasks :: "task list"
  onTaskUpdate :: bool
  deleteDialogOpen :: bool
  taskToDelete :: "task option"
  isUpdating :: bool
  tl_trace :: "effect list"

definition refresh_data :: "task_list \<Rightarrow> task_list" where
  "refresh_data s = s\<lparr>tl_trace := tl_trace s @ [if onTaskUpdate s then OnTaskUpdate else RouterRefresh]\<rparr>"

definition TaskList_updateTaskStatus ::
  "user option \<Rightarrow> string \<Rightarrow> string \<Rightarrow> string \<Rightarrow> service_error option \<Rightarrow> string \<Rightarrow>
   task_list \<Rightarrow> outcome \<times> task_list" where
  "TaskList_updateTaskStatus usr taskId new_status now_update err now_insert s =
     (case usr of
        None \<Rightarrow> (Resolved, s)
      | Some u \<Rightarrow>
          let s1 = s\<lparr>isUpdating := True,
                     tl_trace := tl_trace s @ [Request (status_update_request taskId new_status now_update)]\<rparr> in
          (case err of
             Some e \<Rightarrow>
               (Resolved,
                s1\<lparr>isUpdating := False,
                    tl_trace := tl_trace s1 @
                      [Toast ''Failed to update task'' (message_or e) Destructive,
                       ConsoleError ''Error updating task:'' e]\<rparr>)
           | None \<Rightarrow>
               let s2 = (if new_status = ''completed'' then
                           (case find (\<lambda>t. tid t = taskId) (tasks s1) of
                              Some t \<Rightarrow>
                                if created_by t \<noteq> [] \<and> created_by t \<noteq> uid u
                                then s1\<lparr>tl_trace := tl_trace s1 @
                                        [Request (Insert ''notifications'' [completion_row u t taskId now_insert])]\<rparr>
                                else s1
                            | None \<Rightarrow> s1)
                         else s1);
                   s3 = s2\<lparr>tl_trace := tl_trace s2 @ [Toast ''Task updated'' (status_words new_status) Default]\<rparr>;
                   s4 = refresh_data s3
               in (Resolved, s4\<lparr>isUpdating := False\<rparr>)))"

definition confirmDeleteTask :: "task \<Rightarrow> task_list \<Rightarrow> task_list" where
  "confirmDeleteTask t s = s\<lparr>taskToDelete := Some t, deleteDialogOpen := True\<rparr>"

definition handleDeleteTask :: "user option \<Rightarrow> service_error option \<Rightarrow> task_list \<Rightarrow> outcome \<times> task_list" where
  "handleDeleteTask usr err s =
     (case (taskToDelete s, usr) of
        (Some t, Some u) \<Rightarrow>
          let s1 = s\<lparr>isUpdating := True,
                     tl_trace := tl_trace s @ [Request (Delete ''tasks'' [(''id'', Str (tid t))])]\<rparr>;
              s2 = (case err of
                      Some e \<Rightarrow>
                        s1\<lparr>tl_trace := tl_trace s1 @
                             [Toast ''Failed to delete task'' (message_or e) Destructive,
                              ConsoleError ''Error deleting task:'' e]\<rparr>
                    | None \<Rightarrow>
                        refresh_data
                          (s1\<lparr>tl_trace := tl_trace s1 @
                               [Toast ''Task deleted'' ''The task has been successfully deleted'' Default]\<rparr>))
          in (Resolved, s2\<lparr>isUpdating := False, deleteDialogOpen := False, taskToDelete := None\<rparr>)
      | _ \<Rightarrow> (Resolved, s\<lparr>deleteDialogOpen := False\<rparr>))"

text \<open>TaskPage: the \<open>useState\<close> cells the two handlers write, and the effects issued.\<close>

record task_page =
  task :: "task option"
  tp_isUpdating :: bool
  tp_deleteDialogOpen :: bool
  tp_trace :: "effect list"

definition TaskPage_updateTaskStatus ::
  "user option \<Rightarrow> string \<Rightarrow> string \<Rightarrow> service_error option \<Rightarrow> string \<Rightarrow>
   task_page \<Rightarrow> outcome \<times> task_page" where
  "TaskPage_updateTaskStatus usr new_status now_update err now_insert s =
     (case (usr, task s) of
        (Some u, Some t) \<Rightarrow>
          let s1 = s\<lparr>tp_isUpdating := True,
                     tp_trace := tp_trace s @ [Request (status_update_request (tid t) new_status now_update)]\<rparr> in
          (case err of
             Some e \<Rightarrow>
               (Resolved,
                s1\<lparr>tp_isUpdating := False,
                    tp_trace := tp_trace s1 @
                      [Toast ''Failed to update task'' (message_or e) Destructive,
                       ConsoleError ''Error updating task:'' e]\<rparr>)
           | None \<Rightarrow>
               let s2 = (if new_status = ''completed'' \<and> created_by t \<noteq> [] \<and> created_by t \<noteq> uid u
                         then s1\<lparr>tp_trace := tp_trace s1 @
                                 [Request (Insert ''notifications'' [completion_row u t (tid t) now_insert])]\<rparr>
                         else s1);
                   s3 = s2\<lparr>task := map_option (\<lambda>prev. prev\<lparr>status := new_status\<rparr>) (task s2)\<rparr>;
                   s4 = s3\<lparr>tp_trace := tp_trace s3 @ [Toast ''Task updated'' (status_words new_status) Default]\<rparr>
               in (Resolved, s4\<lparr>tp_isUpdating := False\<rparr>))
      | _ \<Rightarrow> (Resolved, s))"

definition deleteTask :: "user option \<Rightarrow> service_error option \<Rightarrow> task_page \<Rightarrow> outcome \<times> task_page" where
  "deleteTask usr err s =
     (case (usr, task s) of
        (Some u, Some t) \<Rightarrow>
          let s1 = s\<lparr>tp_isUpdating := True,
                     tp_trace := tp_trace s @ [Request (Delete ''tasks'' [(''id'', Str (tid t))])]\<rparr>;
              s2 = (case err of
                      Some e \<Rightarrow>
                        s1\<lparr>tp_trace := tp_trace s1 @
                             [Toast ''Failed to delete task'' (message_or e) Destructive,
                              ConsoleError ''Error deleting task:'' e]\<rparr>
                    | None \<Rightarrow>
                        s1\<lparr>tp_trace := tp_trace s1 @
                             [Toast ''Task deleted'' ''The task has been successfully deleted'' Default,
                              RouterPush ''/dashboard/tasks'']\<rparr>)
          in (Resolved, s2\<lparr>tp_isUpdating := False, tp_deleteDialogOpen := False\<rparr>)
      | _ \<Rightarrow> (Resolved, s))"

text \<open>The notification rows that a sequence of effects inserts, in order.\<close>

fun inserted_notifications :: "effect list \<Rightarrow> row list" where
  "inserted_notifications [] = []"
| "inserted_notifications (Request (Insert tbl rows) # es) =
     (if tbl = ''notifications'' then rows @ inserted_notifications es else inserted_notifications es)"
| "inserted_notifications (e # es) = inserted_notifications es"

definition mk_task :: "string \<Rightarrow> string \<Rightarrow> string \<Rightarrow> string option \<Rightarrow> task" where
  "mk_task i creator st due =
     \<lparr>tid = i, title = ''Write report'', description = None, status = st, priority = ''medium'',
      due_date = due, t_created_at = ''2024-01-01T00:00:00Z'', updated_at = None,
      created_by = creator, assigned_to = Some ''u2'', creator_name = None, assignee_name = None\<rparr>"

definition list_view :: "task list \<Rightarrow> task_list" where
  "list_view ts = \<lparr>tasks = ts, onTaskUpdate = True, deleteDialogOpen = False, taskToDelete = None,
                   isUpdating = False, tl_trace = []\<rparr>"

definition page_view :: "task \<Rightarrow> task_page" where
  "page_view t = \<lparr>task = Some t, tp_isUpdating = False, tp_deleteDialogOpen = False, tp_trace = []\<rparr>"

section \<open>DashboardPage: upcoming deadlines\<close>

text \<open>
  \<open>parseISO\<close> of date-fns is a parameter: it maps a string to a date, here the date's time
  value in milliseconds, \<open>None\<close> for an Invalid Date (whose \<open>getTime()\<close> is NaN).
  \<open>isPast(d)\<close> of date-fns is \<open>d.getTime() < Date.now()\<close>, false for an Invalid Date; \<open>now\<close>
  is the clock reading of the render.
\<close>

type_synonym date = "int option"

definition isPast :: "int \<Rightarrow> date \<Rightarrow> bool" where
  "isPast now d = (case d of Some t \<Rightarrow> t < now | None \<Rightarrow> False)"

text \<open>\<open>task.due_date\<close> as a condition: neither \<open>null\<close> nor the empty string.\<close>

definition has_due_date :: "task \<Rightarrow> bool" where
  "has_due_date t = (case due_date t of Some d \<Rightarrow> d \<noteq> [] | None \<Rightarrow> False)"

definition due_time :: "(string \<Rightarrow> date) \<Rightarrow> task \<Rightarrow> date" where
  "due_time parseISO t = (case due_date t of Some d \<Rightarrow> parseISO d | None \<Rightarrow> None)"

text \<open>
  The comparator of the \<open>sort\<close> call. Only its sign is used; a NaN result (an Invalid Date
  on either side) counts as 0 in \<open>Array.prototype.sort\<close>.
\<close>

definition due_compare :: "(string \<Rightarrow> date) \<Rightarrow> task \<Rightarrow> task \<Rightarrow> int" where
  "due_compare parseISO a b =
     (if \<not> has_due_date a \<or> \<not> has_due_date b then 0
      else (case (due_time parseISO a, due_time parseISO b) of
              (Some p, Some q) \<Rightarrow> p - q
            | _ \<Rightarrow> 0))"

text \<open>
  \<open>Array.prototype.sort\<close> with a comparator is a stable sort: an element moves behind
  another only when the comparator is positive on the pair. For a comparator that is a
  consistent order the result of a stable sort is unique; it is computed by insertion here.
\<close>

fun insert_sorted :: "('a \<Rightarrow> 'a \<Rightarrow> int) \<Rightarrow> 'a \<Rightarrow> 'a list \<Rightarrow> 'a list" where
  "insert_sorted cmp x [] = [x]"
| "insert_sorted cmp x (y # ys) =
     (if 0 < cmp x y then y # insert_sorted cmp x ys else x # y # ys)"

definition array_sort :: "('a \<Rightarrow> 'a \<Rightarrow> int) \<Rightarrow> 'a list \<Rightarrow> 'a list" where
  "array_sort cmp xs = foldr (insert_sorted cmp) xs []"

definition is_upcoming :: "(string \<Rightarrow> date) \<Rightarrow> int \<Rightarrow> task \<Rightarrow> bool" where
  "is_upcoming parseISO now t =
     (has_due_date t \<and> \<not> isPast now (due_time parseISO t) \<and> status t \<noteq> ''completed'')"

definition upcomingTasks :: "(string \<Rightarrow> date) \<Rightarrow> int \<Rightarrow> task list \<Rightarrow> task list" where
  "upcomingTasks parseISO now ts =
     take 5 (array_sort (due_compare parseISO) (filter (is_upcoming parseISO now) ts))"

definition due_not_after :: "(string \<Rightarrow> date) \<Rightarrow> task \<Rightarrow> task \<Rightarrow> bool" where
  "due_not_after parseISO a b =
     (case (due_time parseISO a, due_time parseISO b) of
        (Some p, Some q) \<Rightarrow> p \<le> q
      | _ \<Rightarrow> False)"

text \<open>A sample \<open>parseISO\<close>: days of January 2030, counted in days.\<close>

definition sample_parse :: "string \<Rightarrow> date" where
  "sample_parse d =
     (if d = ''2030-01-01'' then Some 1 else if d = ''2030-01-02'' then Some 2
      else if d = ''2030-01-03'' then Some 3 else if d = ''2030-01-04'' then Some 4
      else None)"

text \<open>A task is \<open>dated\<close> when its due date is set and \<open>parseISO\<close> reads it as a valid date.\<close>

definition dated :: "(string \<Rightarrow> date) \<Rightarrow> task \<Rightarrow> bool" where
  "dated parseISO t = (has_due_date t \<and> due_time parseISO t \<noteq> None)"

definition sample_tasks :: "task list" where
  "sample_tasks =
     [mk_task ''a'' ''u1'' ''todo'' (Some ''2030-01-04''),
      mk_task ''b'' ''u1'' ''completed'' (Some ''2030-01-03''),
      mk_task ''c'' ''u1'' ''in_progress'' (Some ''2030-01-02''),
      mk_task ''d'' ''u1'' ''todo'' None,
      mk_task ''e'' ''u1'' ''todo'' (Some ''2030-01-01''),
      mk_task ''f'' ''u1'' ''todo'' (Some ''2030-01-03'')]"

section \<open>Lemmas on the popover handlers\<close>

lemma unread_after_mark:
  "length (unread (map (\<lambda>n. if nid n = i then n\<lparr>read := True\<rparr> else n) ns)) +
   length (filter (\<lambda>n. nid n = i) (unread ns)) = length (unread ns)"
  by (induction ns) (simp_all add: unread_def)

lemma unread_all_read: "unread (map (\<lambda>n. n\<lparr>read := True\<rparr>) ns) = []"
  by (induction ns) (simp_all add: unread_def)

lemma marked_flags:
  "\<forall>n \<in> set (map (\<lambda>n. if nid n = i then n\<lparr>read := True\<rparr> else n) ns). nid n = i \<longrightarrow> read n"
proof
  fix n
  assume "n \<in> set (map (\<lambda>n. if nid n = i then n\<lparr>read := True\<rparr> else n) ns)"
  then obtain m where n: "n = (if nid m = i then m\<lparr>read := True\<rparr> else m)"
    by (auto simp only: set_map image_iff)
  show "nid n = i \<longrightarrow> read n"
    by (cases "nid m = i") (simp_all add: n)
qed

lemma marked_again:
  "map (\<lambda>n. if nid n = i then n\<lparr>read := True\<rparr> else n)
     (map (\<lambda>n. if nid n = i then n\<lparr>read := True\<rparr> else n) ns) =
   map (\<lambda>n. if nid n = i then n\<lparr>read := True\<rparr> else n) ns"
  by (induction ns) simp_all

lemma markAsRead_ok:
  "notifications (snd (markAsRead i None s)) =
     map (\<lambda>n. if nid n = i then n\<lparr>read := True\<rparr> else n) (notifications s) \<and>
   unreadCount (snd (markAsRead i None s)) = max 0 (unreadCount s - 1)"
  by (simp add: markAsRead_def)

lemma markAsRead_failed_state:
  "notifications (snd (markAsRead i (Some e) s)) = notifications s \<and>
   unreadCount (snd (markAsRead i (Some e) s)) = unreadCount s"
  by (simp add: markAsRead_def)

lemma markAsRead_keeps_consistent:
  assumes "count_consistent s" and "length (filter (\<lambda>n. nid n = i) (unread (notifications s))) = 1"
  shows "count_consistent (snd (markAsRead i None s))"
proof -
  have "length (unread (map (\<lambda>n. if nid n = i then n\<lparr>read := True\<rparr> else n) (notifications s))) + 1
        = length (unread (notifications s))"
    using unread_after_mark [of i "notifications s"] assms(2) by simp
  with assms(1) show ?thesis
    by (simp add: count_consistent_def markAsRead_def)
qed

lemma fetch_count_scanned:
  "count_consistent (snd (fetchNotifications (Some u) \<lparr>data = Some d, error = None\<rparr> s))"
  by (simp add: fetchNotifications_def count_consistent_def)

lemma markAll_count_zero:
  "count_consistent (snd (markAllAsRead (Some u) None s))"
  by (simp add: markAllAsRead_def count_consistent_def unread_all_read)

lemma one_unread_with_id:
  "distinct (map nid ns) \<Longrightarrow> n \<in> set ns \<Longrightarrow> \<not> read n \<Longrightarrow>
   length (filter (\<lambda>m. nid m = nid n) (unread ns)) = 1"
proof (induction ns)
  case Nil
  then show ?case by simp
next
  case (Cons x xs)
  show ?case
  proof (cases "x = n")
    case True
    have "nid n \<notin> nid ` set xs" using Cons.prems(1) True by simp
    then have "\<forall>m \<in> set xs. nid m \<noteq> nid n" by (metis image_eqI)
    then have "filter (\<lambda>m. nid m = nid n) (unread xs) = []"
      by (simp add: unread_def filter_empty_conv)
    with True Cons.prems(3) show ?thesis by (simp add: unread_def)
  next
    case False
    then have m: "n \<in> set xs" using Cons.prems(2) by simp
    then have "nid n \<in> nid ` set xs" by simp
    moreover have "nid x \<notin> nid ` set xs" using Cons.prems(1) by simp
    ultimately have ne: "nid x \<noteq> nid n" by metis
    have "length (filter (\<lambda>m. nid m = nid n) (unread xs)) = 1"
      using Cons.IH Cons.prems(1) m Cons.prems(3) by simp
    with ne show ?thesis by (simp add: unread_def)
  qed
qed

lemma click_on_current_record:
  assumes "count_consistent s" and "distinct (map nid (notifications s))"
    and "n \<in> set (notifications s)"
  shows "count_consistent (clicked n None s)"
proof (cases "read n")
  case True
  then show ?thesis using assms(1)
    by (cases "task_id n") (simp_all add: clicked_def handleNotificationClick_def count_consistent_def Let_def)
next
  case False
  have "length (filter (\<lambda>m. nid m = nid n) (unread (notifications s))) = 1"
    using one_unread_with_id [OF assms(2) assms(3) False] .
  then have "count_consistent (snd (markAsRead (nid n) None s))"
    using assms(1) by (rule markAsRead_keeps_consistent [rotated])
  with False show ?thesis
    by (cases "task_id n") (simp_all add: clicked_def handleNotificationClick_def count_consistent_def Let_def)
qed

lemma flags_kept_map:
  "(\<And>n. nid (f n) = nid n \<and> (read n \<longrightarrow> read (f n))) \<Longrightarrow> flags_kept ns (map f ns)"
  by (induction ns) (simp_all add: flags_kept_def)

lemma flags_kept_refl: "flags_kept ns ns"
  using flags_kept_map [of "\<lambda>n. n" ns] by simp

section \<open>The unread count against the collection\<close>

text \<open>
  C1. The count is kept beside the collection as the number of unread records:
  \<open>fetchNotifications\<close> sets it by scanning the fetched records, \<open>markAllAsRead\<close> sets it
  to 0 with every record read, and a click on an entry rendered from the current record
  keeps it (the three lemmas \<open>fetch_count_scanned\<close>, \<open>markAll_count_zero\<close> and
  \<open>click_on_current_record\<close>). \<open>markAsRead\<close> does not keep it: it lowers the count on
  every successful answer, whether or not a read flag changed. After a fetch of two unread
  records, two clicks on the entry of record 1, both made while it is rendered unread and
  both answered with success, are two calls of \<open>markAsRead(''1'')\<close>; the count is then 0
  while record 2 is still unread, so the count is not the number of unread records.
\<close>

theorem unread_count_drifts:
  "clicked (notif ''1'' False) None (clicked (notif ''1'' False) None
     (snd (fetchNotifications (Some alice) (fetched [notif ''1'' False, notif ''2'' False]) popover_init))) =
   snd (markAsRead ''1'' None (snd (markAsRead ''1'' None
     (snd (fetchNotifications (Some alice) (fetched [notif ''1'' False, notif ''2'' False]) popover_init))))) \<and>
   unreadCount (clicked (notif ''1'' False) None (clicked (notif ''1'' False) None
     (snd (fetchNotifications (Some alice) (fetched [notif ''1'' False, notif ''2'' False]) popover_init)))) = 0 \<and>
   map (\<lambda>n. (nid n, read n)) (notifications (clicked (notif ''1'' False) None (clicked (notif ''1'' False) None
     (snd (fetchNotifications (Some alice) (fetched [notif ''1'' False, notif ''2'' False]) popover_init))))) =
     [(''1'', True), (''2'', False)] \<and>
   \<not> count_consistent (clicked (notif ''1'' False) None (clicked (notif ''1'' False) None
     (snd (fetchNotifications (Some alice) (fetched [notif ''1'' False, notif ''2'' False]) popover_init))))"
  by (simp add: clicked_def handleNotificationClick_def count_consistent_def fetchNotifications_def
      markAsRead_def fetched_def notif_def popover_init_def unread_def)

section \<open>Marking as read\<close>

text \<open>
  C2, as stated, fails for a record whose remote update is refused: after two calls of
  \<open>markAsRead(''1'')\<close> that the service refuses, the read flag of record 1 is still false.
\<close>

theorem markAsRead_twice_refused:
  "map read (notifications (snd (markAsRead ''1'' (Some ''offline'') (snd (markAsRead ''1'' (Some ''offline'')
      \<lparr>notifications = [notif ''1'' False], unreadCount = 1, trace = []\<rparr>))))) = [False]"
  by (simp add: markAsRead_def notif_def)

text \<open>
  C2, amended. After a \<open>markAsRead(i)\<close> whose remote update succeeds every record with
  identifier \<open>i\<close> has its read flag true, and a second \<open>markAsRead(i)\<close>, whatever its
  remote answer, leaves the collection as the first one left it. Each successful call sets
  the count to \<open>max 0 (count - 1)\<close>, so two of them give \<open>max 0 (count - 2)\<close> and the count
  is never negative after a successful call. A refused call changes neither the collection
  nor the count.
\<close>

theorem markAsRead_twice:
  "(\<forall>n \<in> set (notifications (snd (markAsRead i None s))). nid n = i \<longrightarrow> read n) \<and>
   notifications (snd (markAsRead i err (snd (markAsRead i None s)))) =
     notifications (snd (markAsRead i None s)) \<and>
   unreadCount (snd (markAsRead i None s)) = max 0 (unreadCount s - 1) \<and>
   unreadCount (snd (markAsRead i None (snd (markAsRead i None s)))) = max 0 (unreadCount s - 2) \<and>
   0 \<le> unreadCount (snd (markAsRead i None s)) \<and>
   0 \<le> unreadCount (snd (markAsRead i err (snd (markAsRead i None s)))) \<and>
   notifications (snd (markAsRead i (Some e) s)) = notifications s \<and>
   unreadCount (snd (markAsRead i (Some e) s)) = unreadCount s"
proof -
  have flags: "\<forall>n \<in> set (notifications (snd (markAsRead i None s))). nid n = i \<longrightarrow> read n"
    using marked_flags [of i "notifications s"] by (simp only: markAsRead_ok)
  have twice: "notifications (snd (markAsRead i err (snd (markAsRead i None s)))) =
     notifications (snd (markAsRead i None s))"
    by (cases err) (simp_all add: markAsRead_ok markAsRead_failed_state marked_again)
  have two: "unreadCount (snd (markAsRead i None (snd (markAsRead i None s)))) = max 0 (unreadCount s - 2)"
    by (simp add: markAsRead_ok max_def)
  have nonneg: "0 \<le> unreadCount (snd (markAsRead i err (snd (markAsRead i None s))))"
    by (cases err) (simp_all add: markAsRead_ok markAsRead_failed_state)
  have one: "unreadCount (snd (markAsRead i None s)) = max 0 (unreadCount s - 1)"
    by (simp add: markAsRead_ok)
  have nonneg1: "0 \<le> unreadCount (snd (markAsRead i None s))"
    by (simp add: markAsRead_ok)
  note failed = markAsRead_failed_state [of i e s]
  from flags twice one two nonneg1 nonneg failed show ?thesis
    by blast
qed

theorem markAsRead_twice_witness:
  "map read (notifications (snd (markAsRead ''1'' None
      \<lparr>notifications = [notif ''1'' False, notif ''2'' False], unreadCount = 1, trace = []\<rparr>))) = [True, False] \<and>
   unreadCount (snd (markAsRead ''1'' None (snd (markAsRead ''1'' None
      \<lparr>notifications = [notif ''1'' False, notif ''2'' False], unreadCount = 1, trace = []\<rparr>)))) = 0"
  using markAsRead_twice [of "''1''" "\<lparr>notifications = [notif ''1'' False, notif ''2'' False], unreadCount = 1, trace = []\<rparr>" None "''e''"]
  by (simp add: markAsRead_def notif_def)

text \<open>
  C3, as stated, fails: the handlers await the remote update first and touch the local state
  only when it succeeded. After a refused \<open>markAsRead(''1'')\<close> on a fetched unread record the
  flag is false and the count is still 1.
\<close>

theorem markAsRead_refused_not_applied:
  "map read (notifications (snd (markAsRead ''1'' (Some ''offline'')
      (snd (fetchNotifications (Some alice) (fetched [notif ''1'' False]) popover_init))))) = [False] \<and>
   unreadCount (snd (markAsRead ''1'' (Some ''offline'')
      (snd (fetchNotifications (Some alice) (fetched [notif ''1'' False]) popover_init)))) = 1"
  by (simp add: markAsRead_def fetchNotifications_def fetched_def notif_def popover_init_def unread_def)

text \<open>
  C3, amended. \<open>markAsRead\<close> and \<open>markAllAsRead\<close> (with a user) issue the remote update
  first, whatever its answer: it is the first effect of the call, and on success the only
  one. When it is refused, the collection and the count are as before and the error is
  written to the console; when it succeeds, the flag is set on the records with the
  identifier (on every record for \<open>markAllAsRead\<close>) and the count becomes
  \<open>max 0 (count - 1)\<close> (0 for \<open>markAllAsRead\<close>). Without a user \<open>markAllAsRead\<close> does
  nothing. The promise is resolved in every case.
\<close>

theorem mark_remote_first:
  "notifications (snd (markAsRead i (Some e) s)) = notifications s \<and>
   unreadCount (snd (markAsRead i (Some e) s)) = unreadCount s \<and>
   trace (snd (markAsRead i (Some e) s)) =
     trace s @ [Request (Update ''notifications'' [(''read'', Bool True)] [(''id'', Str i)]),
                ConsoleError ''Error marking notification as read:'' e] \<and>
   notifications (snd (markAllAsRead (Some u) (Some e) s)) = notifications s \<and>
   unreadCount (snd (markAllAsRead (Some u) (Some e) s)) = unreadCount s \<and>
   trace (snd (markAllAsRead (Some u) (Some e) s)) =
     trace s @ [Request (Update ''notifications'' [(''read'', Bool True)]
                           [(''user_id'', Str (uid u)), (''read'', Bool False)]),
                ConsoleError ''Error marking all notifications as read:'' e] \<and>
   notifications (snd (markAsRead i None s)) =
     map (\<lambda>n. if nid n = i then n\<lparr>read := True\<rparr> else n) (notifications s) \<and>
   unreadCount (snd (markAsRead i None s)) = max 0 (unreadCount s - 1) \<and>
   trace (snd (markAsRead i None s)) =
     trace s @ [Request (Update ''notifications'' [(''read'', Bool True)] [(''id'', Str i)])] \<and>
   notifications (snd (markAllAsRead (Some u) None s)) = map (\<lambda>n. n\<lparr>read := True\<rparr>) (notifications s) \<and>
   unreadCount (snd (markAllAsRead (Some u) None s)) = 0 \<and>
   trace (snd (markAllAsRead (Some u) None s)) =
     trace s @ [Request (Update ''notifications'' [(''read'', Bool True)]
                           [(''user_id'', Str (uid u)), (''read'', Bool False)])] \<and>
   take (Suc (length (trace s))) (trace (snd (markAsRead i err s))) =
     trace s @ [Request (Update ''notifications'' [(''read'', Bool True)] [(''id'', Str i)])] \<and>
   take (Suc (length (trace s))) (trace (snd (markAllAsRead (Some u) err s))) =
     trace s @ [Request (Update ''notifications'' [(''read'', Bool True)]
                           [(''user_id'', Str (uid u)), (''read'', Bool False)])] \<and>
   markAllAsRead None err s = (Resolved, s) \<and>
   fst (markAsRead i err s) = Resolved \<and> fst (markAllAsRead usr err s) = Resolved"
proof -
  have r1: "fst (markAsRead i err s) = Resolved"
    by (cases err) (simp_all add: markAsRead_def)
  have r2: "fst (markAllAsRead usr err s) = Resolved"
    by (cases usr; cases err) (simp_all add: markAllAsRead_def)
  have t1: "take (Suc (length (trace s))) (trace (snd (markAsRead i err s))) =
     trace s @ [Request (Update ''notifications'' [(''read'', Bool True)] [(''id'', Str i)])]"
    by (cases err) (simp_all add: markAsRead_def)
  have t2: "take (Suc (length (trace s))) (trace (snd (markAllAsRead (Some u) err s))) =
     trace s @ [Request (Update ''notifications'' [(''read'', Bool True)]
                           [(''user_id'', Str (uid u)), (''read'', Bool False)])]"
    by (cases err) (simp_all add: markAllAsRead_def)
  from r1 r2 t1 t2 show ?thesis
    by (simp add: markAsRead_def markAllAsRead_def)
qed

text \<open>
  C8. After a \<open>markAllAsRead\<close> with a user present and a successful remote update, every
  record of the collection is read, the count is 0 and the unread filter is empty. A fetch
  of the records 1 (unread) and 2 (read) gives the count 1; \<open>markAllAsRead\<close> then gives the
  count 0 and both records read.
\<close>

theorem markAllAsRead_success:
  "(\<forall>n \<in> set (notifications (snd (markAllAsRead (Some u) None s))). read n) \<and>
   unreadCount (snd (markAllAsRead (Some u) None s)) = 0 \<and>
   filter (\<lambda>n. \<not> read n) (notifications (snd (markAllAsRead (Some u) None s))) = [] \<and>
   unreadCount (snd (fetchNotifications (Some u) (fetched [notif ''1'' False, notif ''2'' True]) s)) = 1 \<and>
   unreadCount (snd (markAllAsRead (Some u) None
      (snd (fetchNotifications (Some u) (fetched [notif ''1'' False, notif ''2'' True]) s)))) = 0 \<and>
   map (\<lambda>n. (nid n, read n)) (notifications (snd (markAllAsRead (Some u) None
      (snd (fetchNotifications (Some u) (fetched [notif ''1'' False, notif ''2'' True]) s))))) =
     [(''1'', True), (''2'', True)]"
proof -
  have "filter (\<lambda>n. \<not> read n) (map (\<lambda>n. n\<lparr>read := True\<rparr>) (notifications s)) = []"
    using unread_all_read [of "notifications s"] by (simp add: unread_def)
  then show ?thesis
    by (simp add: markAllAsRead_def fetchNotifications_def fetched_def notif_def unread_def)
qed

theorem markAllAsRead_success_witness:
  "map read (notifications (snd (markAllAsRead (Some alice) None
      \<lparr>notifications = [notif ''a'' False, notif ''b'' False, notif ''c'' True], unreadCount = 2, trace = []\<rparr>))) =
     [True, True, True] \<and>
   unreadCount (snd (markAllAsRead (Some alice) None
      \<lparr>notifications = [notif ''a'' False, notif ''b'' False, notif ''c'' True], unreadCount = 2, trace = []\<rparr>)) = 0"
  using markAllAsRead_success [of alice "\<lparr>notifications = [notif ''a'' False, notif ''b'' False, notif ''c'' True], unreadCount = 2, trace = []\<rparr>"]
  by (simp add: markAllAsRead_def notif_def)

text \<open>
  C9. \<open>markAsRead\<close>, \<open>markAllAsRead\<close> (whatever the user and the remote answer) and the
  subscription handler (on the entries that were there, now behind the new one) keep every
  entry's identifier and never turn a read flag from true to false.
\<close>

theorem read_flag_monotone:
  "flags_kept (notifications s) (notifications (snd (markAsRead i err s))) \<and>
   flags_kept (notifications s) (notifications (snd (markAllAsRead usr err s))) \<and>
   flags_kept (notifications s) (tl (notifications (subscription_insert r s)))"
proof -
  have a: "flags_kept (notifications s) (notifications (snd (markAsRead i err s)))"
    by (cases err) (simp_all add: markAsRead_def flags_kept_refl flags_kept_map)
  have b: "flags_kept (notifications s) (notifications (snd (markAllAsRead usr err s)))"
    by (cases usr; cases err) (simp_all add: markAllAsRead_def flags_kept_refl flags_kept_map)
  have c: "flags_kept (notifications s) (tl (notifications (subscription_insert r s)))"
    by (simp add: subscription_insert_def flags_kept_refl)
  from a b c show ?thesis by simp
qed

theorem read_flag_monotone_witness:
  "map read (notifications (snd (markAsRead ''2'' None
      \<lparr>notifications = [notif ''1'' True, notif ''2'' False], unreadCount = 1, trace = []\<rparr>))) = [True, True] \<and>
   map read (tl (notifications (subscription_insert (notif ''1'' False)
      \<lparr>notifications = [notif ''1'' True, notif ''2'' False], unreadCount = 1, trace = []\<rparr>))) = [True, False] \<and>
   flags_kept [notif ''1'' True, notif ''2'' False]
     (notifications (snd (markAllAsRead (Some alice) None
        \<lparr>notifications = [notif ''1'' True, notif ''2'' False], unreadCount = 1, trace = []\<rparr>)))"
  using read_flag_monotone [of "\<lparr>notifications = [notif ''1'' True, notif ''2'' False], unreadCount = 1, trace = []\<rparr>"
      "''2''" None "Some alice" "notif ''1'' False"]
  by (simp add: markAsRead_def subscription_insert_def notif_def)

section \<open>Fetching the notifications\<close>

text \<open>
  C5, as stated, fails. With no user \<open>fetchNotifications\<close> returns at once: its promise is
  resolved, not rejected with \<open>NotAuthenticated\<close>, and the state is as before.
\<close>

theorem fetchNotifications_no_user:
  "fetchNotifications None (fetched [notif ''1'' False]) popover_init = (Resolved, popover_init) \<and>
   fst (fetchNotifications None (fetched [notif ''1'' False]) popover_init) \<noteq> Rejected NotAuthenticated"
  by (simp add: fetchNotifications_def)

text \<open>
  C5, amended. With no user \<open>fetchNotifications\<close> returns without any effect. With a user
  its first effect is the request for the rows of \<open>notifications\<close> whose \<open>user_id\<close> is the
  user's, ordered by \<open>created_at\<close> descending, limited to 20. When the service answers with
  data and no error the collection is replaced by the data and the count by the number of
  unread records in it. When it answers with an error the collection and the count are as
  before and the error is written to the console. The promise is resolved in every case.
\<close>

theorem fetchNotifications_cases:
  "fetchNotifications None resp s = (Resolved, s) \<and>
   fst (fetchNotifications (Some u) resp s) = Resolved \<and>
   take (Suc (length (trace s))) (trace (snd (fetchNotifications (Some u) resp s))) =
     trace s @ [Request (Select ''notifications'' ''*'' [(''user_id'', Str (uid u))]
                           (Some (''created_at'', Descending)) (Some 20))] \<and>
   notifications (snd (fetchNotifications (Some u) \<lparr>data = Some d, error = None\<rparr> s)) = d \<and>
   unreadCount (snd (fetchNotifications (Some u) \<lparr>data = Some d, error = None\<rparr> s)) =
     int (length (filter (\<lambda>n. \<not> read n) d)) \<and>
   notifications (snd (fetchNotifications (Some u) (resp\<lparr>error := Some e\<rparr>) s)) = notifications s \<and>
   unreadCount (snd (fetchNotifications (Some u) (resp\<lparr>error := Some e\<rparr>) s)) = unreadCount s \<and>
   trace (snd (fetchNotifications (Some u) (resp\<lparr>error := Some e\<rparr>) s)) =
     trace s @ [Request (notifications_query u), ConsoleError ''Error fetching notifications:'' e]"
proof -
  have r: "fst (fetchNotifications (Some u) resp s) = Resolved"
    by (cases "error resp"; cases "data resp") (simp_all add: fetchNotifications_def)
  have t: "take (Suc (length (trace s))) (trace (snd (fetchNotifications (Some u) resp s))) =
     trace s @ [Request (notifications_query u)]"
    by (cases "error resp"; cases "data resp") (simp_all add: fetchNotifications_def)
  show ?thesis using r t
    by (simp add: fetchNotifications_def notifications_query_def unread_def)
qed

section \<open>Completing a task\<close>

lemma inserted_notifications_append:
  "inserted_notifications (es @ fs) = inserted_notifications es @ inserted_notifications fs"
  by (induction es rule: inserted_notifications.induct) simp_all

lemma TaskPage_update_refused:
  "inserted_notifications (tp_trace (snd (TaskPage_updateTaskStatus usr st at_update (Some e) at_insert s))) =
   inserted_notifications (tp_trace s)"
  by (cases usr; cases "task s")
     (simp_all add: TaskPage_updateTaskStatus_def inserted_notifications_append status_update_request_def)

lemma TaskList_update_refused:
  "inserted_notifications (tl_trace (snd (TaskList_updateTaskStatus usr i st at_update (Some e) at_insert s))) =
   inserted_notifications (tl_trace s)"
  by (cases usr)
     (simp_all add: TaskList_updateTaskStatus_def inserted_notifications_append status_update_request_def)

lemma TaskPage_update_completed:
  "inserted_notifications
     (tp_trace (snd (TaskPage_updateTaskStatus (Some u) ''completed'' at_update None at_insert (s\<lparr>task := Some t\<rparr>)))) =
   inserted_notifications (tp_trace s) @
     (if created_by t \<noteq> [] \<and> created_by t \<noteq> uid u then [completion_row u t (tid t) at_insert] else [])"
  by (simp add: TaskPage_updateTaskStatus_def inserted_notifications_append status_update_request_def)

lemma TaskPage_update_other:
  "st \<noteq> ''completed'' \<Longrightarrow>
   inserted_notifications (tp_trace (snd (TaskPage_updateTaskStatus usr st at_update err at_insert s))) =
   inserted_notifications (tp_trace s)"
  by (cases usr; cases "task s"; cases err)
     (simp_all add: TaskPage_updateTaskStatus_def inserted_notifications_append status_update_request_def)

lemma TaskList_update_completed:
  "find (\<lambda>x. tid x = i) (tasks s) = Some t \<Longrightarrow>
   inserted_notifications
     (tl_trace (snd (TaskList_updateTaskStatus (Some u) i ''completed'' at_update None at_insert s))) =
   inserted_notifications (tl_trace s) @
     (if created_by t \<noteq> [] \<and> created_by t \<noteq> uid u then [completion_row u t i at_insert] else [])"
  by (simp add: TaskList_updateTaskStatus_def inserted_notifications_append status_update_request_def
      refresh_data_def)

lemma TaskList_update_other:
  "st \<noteq> ''completed'' \<Longrightarrow>
   inserted_notifications (tl_trace (snd (TaskList_updateTaskStatus usr i st at_update err at_insert s))) =
   inserted_notifications (tl_trace s)"
  by (cases usr; cases err)
     (simp_all add: TaskList_updateTaskStatus_def inserted_notifications_append status_update_request_def
        refresh_data_def)

lemma completion_row_fields:
  "map_of (completion_row u t i n) ''user_id'' = Some (Str (created_by t)) \<and>
   map_of (completion_row u t i n) ''task_id'' = Some (Str i) \<and>
   map_of (completion_row u t i n) ''read'' = Some (Bool False) \<and>
   map_of (completion_row u t i n) ''type'' = Some (Str ''task_completed'')"
  by (simp add: completion_row_def)

text \<open>
  C6, as stated, fails when the Data Service refuses the status update: Bob completes task
  t1, created by user u1, the update is refused, and \<open>updateTaskStatus\<close> leaves the \<open>try\<close>
  block before the notification is inserted.
\<close>

theorem completion_unnotified_when_refused:
  "inserted_notifications
     (tp_trace (snd (TaskPage_updateTaskStatus (Some bob) ''completed'' ''2024-02-01T10:00:00Z''
        (Some ''offline'') ''2024-02-01T10:00:01Z'' (page_view (mk_task ''t1'' ''u1'' ''in_progress'' None))))) = []"
  by (simp add: TaskPage_updateTaskStatus_def page_view_def mk_task_def bob_def status_update_request_def)

text \<open>
  C6, amended. When the status update to \<open>completed\<close> succeeds and the task's creator is
  set and differs from the acting user, \<open>updateTaskStatus\<close> (on the task page, and in the task
  list for a task found in the list) inserts exactly one notification row: its \<open>user_id\<close>
  is the creator, its \<open>task_id\<close> the task, its \<open>read\<close> flag false and its \<open>type\<close>
  \<open>task_completed\<close>. When the acting user is the creator, when the update is refused, or
  when the new status is not \<open>completed\<close>, no notification row is inserted.
\<close>

theorem completion_notifies_creator:
  "(created_by t \<noteq> [] \<and> created_by t \<noteq> uid u \<longrightarrow>
      inserted_notifications
        (tp_trace (snd (TaskPage_updateTaskStatus (Some u) ''completed'' at_update None at_insert (p\<lparr>task := Some t\<rparr>)))) =
      inserted_notifications (tp_trace p) @ [completion_row u t (tid t) at_insert]) \<and>
   (created_by t = uid u \<longrightarrow>
      inserted_notifications
        (tp_trace (snd (TaskPage_updateTaskStatus (Some u) ''completed'' at_update None at_insert (p\<lparr>task := Some t\<rparr>)))) =
      inserted_notifications (tp_trace p)) \<and>
   (find (\<lambda>x. tid x = i) (tasks s) = Some t \<and> created_by t \<noteq> [] \<and> created_by t \<noteq> uid u \<longrightarrow>
      inserted_notifications
        (tl_trace (snd (TaskList_updateTaskStatus (Some u) i ''completed'' at_update None at_insert s))) =
      inserted_notifications (tl_trace s) @ [completion_row u t i at_insert]) \<and>
   (find (\<lambda>x. tid x = i) (tasks s) = Some t \<and> created_by t = uid u \<longrightarrow>
      inserted_notifications
        (tl_trace (snd (TaskList_updateTaskStatus (Some u) i ''completed'' at_update None at_insert s))) =
      inserted_notifications (tl_trace s)) \<and>
   inserted_notifications (tp_trace (snd (TaskPage_updateTaskStatus usr st at_update (Some e) at_insert p))) =
     inserted_notifications (tp_trace p) \<and>
   inserted_notifications (tl_trace (snd (TaskList_updateTaskStatus usr i st at_update (Some e) at_insert s))) =
     inserted_notifications (tl_trace s) \<and>
   (st \<noteq> ''completed'' \<longrightarrow>
      inserted_notifications (tp_trace (snd (TaskPage_updateTaskStatus usr st at_update err at_insert p))) =
        inserted_notifications (tp_trace p) \<and>
      inserted_notifications (tl_trace (snd (TaskList_updateTaskStatus usr i st at_update err at_insert s))) =
        inserted_notifications (tl_trace s)) \<and>
   map_of (completion_row u t i at_insert) ''user_id'' = Some (Str (created_by t)) \<and>
   map_of (completion_row u t i at_insert) ''task_id'' = Some (Str i) \<and>
   map_of (completion_row u t i at_insert) ''read'' = Some (Bool False) \<and>
   map_of (completion_row u t i at_insert) ''type'' = Some (Str ''task_completed'')"
  using TaskPage_update_completed [where u = u and s = p and t = t and at_update = at_update and at_insert = at_insert]
    TaskList_update_completed [where i = i and s = s and t = t and u = u and at_update = at_update and at_insert = at_insert]
    TaskPage_update_refused [where usr = usr and st = st and e = e and s = p and at_update = at_update and at_insert = at_insert]
    TaskList_update_refused [where usr = usr and i = i and st = st and e = e and s = s and at_update = at_update and at_insert = at_insert]
    TaskPage_update_other [where st = st and usr = usr and err = err and s = p and at_update = at_update and at_insert = at_insert]
    TaskList_update_other [where st = st and usr = usr and i = i and err = err and s = s and at_update = at_update and at_insert = at_insert]
    completion_row_fields [where u = u and t = t and i = i and n = at_insert]
  by simp

theorem completion_notifies_creator_witness:
  "inserted_notifications
     (tp_trace (snd (TaskPage_updateTaskStatus (Some bob) ''completed'' ''2024-02-01T10:00:00Z'' None
        ''2024-02-01T10:00:01Z'' (page_view (mk_task ''t1'' ''u1'' ''in_progress'' None))))) =
     [[(''user_id'', Str ''u1''),
       (''message'', Str (''Bob completed the task '' @ [CHR 0x22] @ ''Write report'' @ [CHR 0x22])),
       (''type'', Str ''task_completed''), (''read'', Bool False), (''task_id'', Str ''t1''),
       (''created_at'', Str ''2024-02-01T10:00:01Z'')]] \<and>
   inserted_notifications
     (tl_trace (snd (TaskList_updateTaskStatus (Some alice) ''t1'' ''completed'' ''2024-02-01T10:00:00Z'' None
        ''2024-02-01T10:00:01Z'' (list_view [mk_task ''t1'' ''u1'' ''in_progress'' None])))) = []"
  using completion_notifies_creator [where t = "mk_task ''t1'' ''u1'' ''in_progress'' None" and u = bob
      and p = "page_view (mk_task ''t1'' ''u1'' ''in_progress'' None)" and s = "list_view []" and st = "''completed''"]
    completion_notifies_creator [where t = "mk_task ''t1'' ''u1'' ''in_progress'' None" and u = alice
      and i = "''t1''" and s = "list_view [mk_task ''t1'' ''u1'' ''in_progress'' None]" and st = "''completed''"]
  by (simp add: TaskPage_updateTaskStatus_def TaskList_updateTaskStatus_def page_view_def list_view_def
      mk_task_def bob_def alice_def completion_row_def name_or_someone_def status_update_request_def
      refresh_data_def)

section \<open>Deleting a task\<close>

text \<open>
  C7, as stated, fails: no handler removes an entry from the local collection. After a
  delete of task t1 that the Data Service accepts, the list the component was given still
  holds t1 and t2; the handler has only asked for a refresh.
\<close>

theorem deleted_entry_stays:
  "map tid (tasks (snd (handleDeleteTask (Some bob) None
      (confirmDeleteTask (mk_task ''t1'' ''u1'' ''todo'' None)
         (list_view [mk_task ''t1'' ''u1'' ''todo'' None, mk_task ''t2'' ''u1'' ''todo'' None]))))) =
   [''t1'', ''t2'']"
  by (simp add: handleDeleteTask_def confirmDeleteTask_def list_view_def mk_task_def refresh_data_def)

text \<open>
  C7, amended. \<open>handleDeleteTask\<close> and \<open>deleteTask\<close> issue the remote delete first and
  never change the local collection (the task list's \<open>tasks\<close>, the task page's \<open>task\<close>)
  themselves. When the delete is refused, a destructive toast shows the failure and the
  error is written to the console; when it succeeds, a toast confirms it and the task list
  asks for a refresh (\<open>onTaskUpdate\<close> if passed, else \<open>router.refresh\<close>), the task page
  navigates to the list of tasks. The promise is resolved in every case.
\<close>

theorem delete_remote_first:
  "tasks (snd (handleDeleteTask usr err s)) = tasks s \<and>
   fst (handleDeleteTask usr err s) = Resolved \<and>
   tl_trace (snd (handleDeleteTask (Some u) (Some e) (s\<lparr>taskToDelete := Some t\<rparr>))) =
     tl_trace s @ [Request (Delete ''tasks'' [(''id'', Str (tid t))]),
                   Toast ''Failed to delete task'' (message_or e) Destructive,
                   ConsoleError ''Error deleting task:'' e] \<and>
   tl_trace (snd (handleDeleteTask (Some u) None (s\<lparr>taskToDelete := Some t\<rparr>))) =
     tl_trace s @ [Request (Delete ''tasks'' [(''id'', Str (tid t))]),
                   Toast ''Task deleted'' ''The task has been successfully deleted'' Default,
                   if onTaskUpdate s then OnTaskUpdate else RouterRefresh] \<and>
   task (snd (deleteTask usr err p)) = task p \<and>
   fst (deleteTask usr err p) = Resolved \<and>
   tp_trace (snd (deleteTask (Some u) (Some e) (p\<lparr>task := Some t\<rparr>))) =
     tp_trace p @ [Request (Delete ''tasks'' [(''id'', Str (tid t))]),
                   Toast ''Failed to delete task'' (message_or e) Destructive,
                   ConsoleError ''Error deleting task:'' e] \<and>
   tp_trace (snd (deleteTask (Some u) None (p\<lparr>task := Some t\<rparr>))) =
     tp_trace p @ [Request (Delete ''tasks'' [(''id'', Str (tid t))]),
                   Toast ''Task deleted'' ''The task has been successfully deleted'' Default,
                   RouterPush ''/dashboard/tasks'']"
proof -
  have a: "tasks (snd (handleDeleteTask usr err s)) = tasks s \<and> fst (handleDeleteTask usr err s) = Resolved"
    by (cases usr; cases "taskToDelete s"; cases err)
       (simp_all add: handleDeleteTask_def refresh_data_def)
  have b: "task (snd (deleteTask usr err p)) = task p \<and> fst (deleteTask usr err p) = Resolved"
    by (cases usr; cases "task p"; cases err) (simp_all add: deleteTask_def)
  from a b show ?thesis
    by (simp add: handleDeleteTask_def deleteTask_def refresh_data_def)
qed

section \<open>Upcoming deadlines\<close>

lemma set_insert_sorted: "set (insert_sorted cmp x ys) = insert x (set ys)"
  by (induction ys) auto

lemma length_insert_sorted: "length (insert_sorted cmp x ys) = Suc (length ys)"
  by (induction ys) simp_all

lemma set_array_sort: "set (array_sort cmp xs) = set xs"
  by (induction xs) (simp_all add: array_sort_def set_insert_sorted)

lemma length_array_sort: "length (array_sort cmp xs) = length xs"
  by (induction xs) (simp_all add: array_sort_def length_insert_sorted)

lemma due_compare_dated:
  assumes "dated parseISO a" and "dated parseISO b"
  shows "(0 < due_compare parseISO a b \<longrightarrow> due_not_after parseISO b a) \<and>
         (\<not> 0 < due_compare parseISO a b \<longrightarrow> due_not_after parseISO a b)"
  using assms by (auto simp add: dated_def due_compare_def due_not_after_def)

lemma due_not_after_trans:
  "due_not_after parseISO a b \<Longrightarrow> due_not_after parseISO b c \<Longrightarrow> due_not_after parseISO a c"
  by (auto simp add: due_not_after_def split: option.splits)

lemma insert_sorted_keeps_order:
  assumes "dated parseISO x" and "\<forall>y \<in> set ys. dated parseISO y"
    and "sorted_wrt (due_not_after parseISO) ys"
  shows "sorted_wrt (due_not_after parseISO) (insert_sorted (due_compare parseISO) x ys)"
  using assms
proof (induction ys)
  case Nil
  then show ?case by simp
next
  case (Cons y ys)
  have dy: "dated parseISO y" using Cons.prems(2) by simp
  show ?case
  proof (cases "0 < due_compare parseISO x y")
    case True
    then have yx: "due_not_after parseISO y x"
      using due_compare_dated [OF Cons.prems(1) dy] by simp
    have rest: "sorted_wrt (due_not_after parseISO) (insert_sorted (due_compare parseISO) x ys)"
      using Cons.IH Cons.prems by simp
    have "\<forall>z \<in> set (insert_sorted (due_compare parseISO) x ys). due_not_after parseISO y z"
      using yx Cons.prems(3) by (simp add: set_insert_sorted)
    with rest True show ?thesis by simp
  next
    case False
    then have xy: "due_not_after parseISO x y"
      using due_compare_dated [OF Cons.prems(1) dy] by simp
    have "\<forall>z \<in> set ys. due_not_after parseISO x z"
      using xy Cons.prems(3) by (auto intro: due_not_after_trans)
    with xy False Cons.prems(3) show ?thesis by simp
  qed
qed

lemma array_sort_sorted:
  "\<forall>y \<in> set xs. dated parseISO y \<Longrightarrow>
   sorted_wrt (due_not_after parseISO) (array_sort (due_compare parseISO) xs)"
proof (induction xs)
  case Nil
  then show ?case by (simp add: array_sort_def)
next
  case (Cons x xs)
  then have "sorted_wrt (due_not_after parseISO) (array_sort (due_compare parseISO) xs)"
    by simp
  moreover have "\<forall>y \<in> set (array_sort (due_compare parseISO) xs). dated parseISO y"
    using Cons.prems by (simp add: set_array_sort)
  moreover have "dated parseISO x" using Cons.prems by simp
  ultimately have "sorted_wrt (due_not_after parseISO)
      (insert_sorted (due_compare parseISO) x (array_sort (due_compare parseISO) xs))"
    by (simp add: insert_sorted_keeps_order)
  then show ?case by (simp add: array_sort_def)
qed

lemma sorted_wrt_take: "sorted_wrt R xs \<Longrightarrow> sorted_wrt R (take n xs)"
proof (induction xs arbitrary: n)
  case Nil
  then show ?case by simp
next
  case (Cons x xs)
  show ?case
  proof (cases n)
    case 0
    then show ?thesis by simp
  next
    case (Suc m)
    have "\<forall>z \<in> set (take m xs). R x z"
      using Cons.prems by (auto dest: in_set_takeD)
    with Cons Suc show ?thesis by simp
  qed
qed

text \<open>
  C10. \<open>upcomingTasks\<close> is a function of the fetched tasks (and of the clock). When every
  due date that is set parses to a valid date, each of its entries is one of the fetched
  tasks, has a due date that is not in the past (not before \<open>now\<close>) and a status other than
  \<open>completed\<close>; the entries are in ascending order of due date; and there are at most 5.
\<close>

theorem upcomingTasks_spec:
  assumes "\<forall>t \<in> set ts. has_due_date t \<longrightarrow> due_time parseISO t \<noteq> None"
  shows "(\<forall>t \<in> set (upcomingTasks parseISO now ts).
            t \<in> set ts \<and> has_due_date t \<and> \<not> isPast now (due_time parseISO t) \<and>
            (case due_time parseISO t of Some d \<Rightarrow> now \<le> d | None \<Rightarrow> False) \<and>
            status t \<noteq> ''completed'') \<and>
         sorted_wrt (due_not_after parseISO) (upcomingTasks parseISO now ts) \<and>
         length (upcomingTasks parseISO now ts) \<le> 5"
proof -
  let ?kept = "filter (is_upcoming parseISO now) ts"
  have dated: "\<forall>y \<in> set ?kept. dated parseISO y"
    using assms by (simp add: dated_def is_upcoming_def)
  have members: "\<forall>t \<in> set (upcomingTasks parseISO now ts).
      t \<in> set ts \<and> has_due_date t \<and> \<not> isPast now (due_time parseISO t) \<and>
      (case due_time parseISO t of Some d \<Rightarrow> now \<le> d | None \<Rightarrow> False) \<and>
      status t \<noteq> ''completed''"
  proof
    fix t
    assume "t \<in> set (upcomingTasks parseISO now ts)"
    then have "t \<in> set (array_sort (due_compare parseISO) ?kept)"
      by (auto simp add: upcomingTasks_def dest: in_set_takeD)
    then have k: "t \<in> set ts \<and> is_upcoming parseISO now t"
      by (simp add: set_array_sort)
    then have "due_time parseISO t \<noteq> None"
      using assms by (simp add: is_upcoming_def)
    with k show "t \<in> set ts \<and> has_due_date t \<and> \<not> isPast now (due_time parseISO t) \<and>
      (case due_time parseISO t of Some d \<Rightarrow> now \<le> d | None \<Rightarrow> False) \<and>
      status t \<noteq> ''completed''"
      by (auto simp add: is_upcoming_def isPast_def)
  qed
  have ordered: "sorted_wrt (due_not_after parseISO) (upcomingTasks parseISO now ts)"
    using array_sort_sorted [OF dated] by (simp add: upcomingTasks_def sorted_wrt_take)
  have short: "length (upcomingTasks parseISO now ts) \<le> 5"
    by (simp add: upcomingTasks_def)
  from members ordered short show ?thesis by blast
qed

theorem upcomingTasks_spec_witness:
  "list_all (\<lambda>t. \<not> has_due_date t \<or> due_time sample_parse t \<noteq> None) sample_tasks \<and>
   map tid (upcomingTasks sample_parse 2 sample_tasks) = [''c'', ''f'', ''a''] \<and>
   sorted_wrt (due_not_after sample_parse) (upcomingTasks sample_parse 2 sample_tasks) \<and>
   length (upcomingTasks sample_parse 2 sample_tasks) \<le> 5"
proof -
  have h: "\<forall>t \<in> set sample_tasks. has_due_date t \<longrightarrow> due_time sample_parse t \<noteq> None"
    by (simp add: sample_tasks_def mk_task_def has_due_date_def due_time_def sample_parse_def)
  have v: "map tid (upcomingTasks sample_parse 2 sample_tasks) = [''c'', ''f'', ''a'']"
    by (simp add: upcomingTasks_def array_sort_def due_compare_def is_upcoming_def isPast_def
        sample_tasks_def mk_task_def has_due_date_def due_time_def sample_parse_def)
  from upcomingTasks_spec [OF h, of 2] h v show ?thesis
    by (simp add: list_all_iff)
qed

section \<open>The subscription handler\<close>

text \<open>
  C4. The handler of a push-delivered insert puts the record at the front of the collection
  whatever the collection holds (no look-up of its identifier), leaves the entries that were
  there in their order behind it, and adds exactly one to the unread count, whatever the
  record's read flag. A record with identifier 1, already read, pushed onto a collection
  that holds an unread record 1 gives a collection with both and the count 2.
\<close>

theorem subscription_insert_prepends:
  "notifications (subscription_insert r s) = r # notifications s \<and>
   tl (notifications (subscription_insert r s)) = notifications s \<and>
   length (notifications (subscription_insert r s)) = Suc (length (notifications s)) \<and>
   unreadCount (subscription_insert r s) = unreadCount s + 1 \<and>
   map (\<lambda>n. (nid n, read n))
     (notifications (subscription_insert (notif ''1'' True)
        \<lparr>notifications = [notif ''1'' False, notif ''2'' True], unreadCount = 1, trace = []\<rparr>)) =
     [(''1'', True), (''1'', False), (''2'', True)] \<and>
   unreadCount (subscription_insert (notif ''1'' True)
      \<lparr>notifications = [notif ''1'' False, notif ''2'' True], unreadCount = 1, trace = []\<rparr>) = 2"
  by (simp add: subscription_insert_def notif_def)

end
